theory Spec2Isabelle
  imports Complex_Main "HOL-Library.Multiset" "HOL-Library.Product_Lexorder" "HOL-Library.Log_Nat"
begin

section \<open>The population table\<close>

text \<open>
  The dashboard reads one CSV into the data frame \<open>df_reshaped\<close>; a data frame is
  modelled as the list of its rows, in file order. The columns the transformations read
  are \<open>states\<close>, \<open>id\<close>, \<open>population\<close> (kept by
  \<open>calculate_population_difference\<close>), \<open>states_code\<close> and \<open>year\<close>.
  The column \<open>id\<close> is called \<open>id_col\<close> here. Column values are integers
  and strings, as in the file.
\<close>

record state_row =
  states :: string
  id_col :: int
  population :: int

record pop_row = state_row +
  states_code :: string
  year :: int

record diff_row = state_row +
  population_difference :: int

type_synonym data_frame = "pop_row list"

section \<open>Sorting a frame by a column, descending\<close>

text \<open>
  \<open>df.sort_values(by=col, ascending=False)\<close> is called without \<open>kind\<close>, so pandas
  sorts with its default \<open>kind='quicksort'\<close>, which its documentation lists as not
  stable: the rows come out ordered by the column, and the order among rows with equal
  keys is whatever the sorting kernel leaves. The kernel is not part of this repository;
  its choice among equal keys is the parameter \<open>tie\<close>, a rank on row positions:
  rows are ordered by descending key, rows with equal keys by ascending \<open>tie\<close>
  (and by position where that is equal too). Every theorem below holds for every
  \<open>tie\<close>; \<open>tie = (\<lambda>i. 0)\<close> is a stable kernel.

  As in pandas, the sort computes an indexer (a permutation of the row positions) and
  takes the rows in that order.
\<close>

definition argsort_desc :: "(nat \<Rightarrow> nat) \<Rightarrow> int list \<Rightarrow> nat list" where
  "argsort_desc tie ks = sort_key (\<lambda>i. (- (ks ! i), tie i)) [0..<length ks]"

definition sort_values_desc :: "(nat \<Rightarrow> nat) \<Rightarrow> ('a \<Rightarrow> int) \<Rightarrow> 'a list \<Rightarrow> 'a list" where
  "sort_values_desc tie by df = map (\<lambda>i. df ! i) (argsort_desc tie (map by df))"

section \<open>Year selection and ranking (sidebar)\<close>

text \<open>\<open>df_reshaped[df_reshaped.year == selected_year]\<close>: the rows of one year, in order.\<close>

definition df_selected_year :: "data_frame \<Rightarrow> int \<Rightarrow> data_frame" where
  "df_selected_year df_reshaped selected_year = filter (\<lambda>r. year r = selected_year) df_reshaped"


section \<open>Year-over-year differences\<close>

text \<open>
  \<open>a.sub(b, fill_value=0)\<close> on two series that both carry the index \<open>0, 1, 2, ...\<close>
  (each was given it by \<open>reset_index()\<close>): the result is indexed by the union of the two
  index ranges, entry \<open>i\<close> is \<open>a[i] - b[i]\<close>, and where only one side has an entry
  \<open>i\<close> the other side counts as 0. The pairing is by index, that is by position.
\<close>

fun sub_fill_value :: "int list \<Rightarrow> int list \<Rightarrow> int list" where
  "sub_fill_value (x # xs) (y # ys) = (x - y) # sub_fill_value xs ys"
| "sub_fill_value (x # xs) [] = (x - 0) # sub_fill_value xs []"
| "sub_fill_value [] (y # ys) = (0 - y) # sub_fill_value [] ys"
| "sub_fill_value [] [] = []"

text \<open>
  Assigning the series as the column \<open>population_difference\<close> of
  \<open>selected_year_data\<close> aligns it to that frame's index: row \<open>i\<close> gets entry
  \<open>i\<close>, and entries past the last row are dropped. The \<open>concat\<close> keeps the columns
  \<open>states\<close>, \<open>id\<close>, \<open>population\<close> and \<open>population_difference\<close>.
  The differences are modelled as integers: pandas holds them as floats when the two
  slices differ in length, with the same values for populations below \<open>2 ^ 53\<close>.
\<close>

definition with_difference :: "pop_row \<Rightarrow> int \<Rightarrow> diff_row" where
  "with_difference r d =
     \<lparr>states = states r, id_col = id_col r, population = population r,
      population_difference = d\<rparr>"

definition calculate_population_difference ::
  "(nat \<Rightarrow> nat) \<Rightarrow> data_frame \<Rightarrow> int \<Rightarrow> diff_row list" where
  "calculate_population_difference tie input_df input_year =
     (let selected_year_data = filter (\<lambda>r. year r = input_year) input_df;
          previous_year_data = filter (\<lambda>r. year r = input_year - 1) input_df;
          difference = sub_fill_value (map population selected_year_data)
                                      (map population previous_year_data)
      in sort_values_desc tie population_difference
           (map2 with_difference selected_year_data difference))"


section \<open>Python numbers and strings\<close>

text \<open>
  Python integers are unbounded and are modelled by \<open>int\<close>; \<open>//\<close> and \<open>%\<close> with a
  positive divisor are \<open>div\<close> and \<open>mod\<close>. The exceptions the arithmetic below can
  raise are values of \<open>py_error\<close>, and a computation that can raise returns
  \<open>py_error + 'a\<close>.
\<close>

datatype py_error = ZeroDivisionError | OverflowError

text \<open>\<open>str(i)\<close> for an integer: its decimal digits, with a minus sign when negative.\<close>

definition digit_char :: "nat \<Rightarrow> char" where
  "digit_char d = ''0123456789'' ! d"

function str_nat :: "nat \<Rightarrow> string" where
  "str_nat n = (if n < 10 then [digit_char n] else str_nat (n div 10) @ [digit_char (n mod 10)])"
  by pat_completeness auto
termination
  by (relation "measure (\<lambda>n. n)") auto

declare str_nat.simps [simp del]

definition str_int :: "int \<Rightarrow> string" where
  "str_int i = (if i < 0 then ''-'' @ str_nat (nat (- i)) else str_nat (nat i))"

subsection \<open>Floats\<close>

text \<open>
  A Python float is an IEEE 754 binary64 number. The finite ones are modelled by the
  rational numbers they denote, so that no rounding is hidden: every operation computes
  its exact result and rounds it to the nearest binary64 number, ties going to the even
  significand. \<open>magnitude b x\<close> is the exponent \<open>e\<close> with
  \<open>b ^ e \<le> x < b ^ (e + 1)\<close> for a positive \<open>x\<close>.
\<close>

definition round_half_even :: "rat \<Rightarrow> int" where
  "round_half_even x =
     (let f = \<lfloor>x\<rfloor>; r = x - of_int f
      in if r < 1 / 2 then f else if 1 / 2 < r then f + 1 else if even f then f else f + 1)"

definition magnitude :: "nat \<Rightarrow> rat \<Rightarrow> int" where
  "magnitude b x =
     (if 1 \<le> x then int (floorlog b (nat \<lfloor>x\<rfloor>)) - 1
      else - int (floorlog b (nat (\<lceil>1 / x\<rceil> - 1))))"

text \<open>
  The spacing of the binary64 numbers around \<open>x\<close>: 53 significant bits, and the fixed
  spacing \<open>2 ^ - 1074\<close> of the subnormal numbers below \<open>2 ^ - 1022\<close>.
\<close>

definition quantum :: "rat \<Rightarrow> rat" where
  "quantum x = 2 powi (max (magnitude 2 \<bar>x\<bar>) (- 1022) - 52)"

definition round_binary64 :: "rat \<Rightarrow> rat" where
  "round_binary64 x =
     (if x = 0 then 0 else of_int (round_half_even (x / quantum x)) * quantum x)"

text \<open>
  The largest binary64 number is below \<open>2 ^ 1024\<close>; a result that rounds to
  \<open>2 ^ 1024\<close> or more is an overflow (\<open>None\<close>).
\<close>

definition to_double :: "rat \<Rightarrow> rat option" where
  "to_double x = (let y = round_binary64 x in if \<bar>y\<bar> < 2 ^ 1024 then Some y else None)"

text \<open>
  \<open>a / b\<close> on two integers is correctly rounded; it raises \<open>ZeroDivisionError\<close> for
  \<open>b = 0\<close> and \<open>OverflowError\<close> when the quotient is too large for a float.
\<close>

definition py_truediv :: "int \<Rightarrow> int \<Rightarrow> py_error + rat" where
  "py_truediv a b =
     (if b = 0 then Inl ZeroDivisionError
      else case to_double (of_int a / of_int b) of
             None \<Rightarrow> Inl OverflowError
           | Some q \<Rightarrow> Inr q)"

text \<open>\<open>x * y\<close> on two floats: an overflow gives an infinity (\<open>None\<close>), not an exception.\<close>

definition float_mul :: "rat \<Rightarrow> rat \<Rightarrow> rat option" where
  "float_mul x y = to_double (x * y)"

text \<open>
  \<open>round(x)\<close> on a float returns the nearest integer, the even one of two equally near,
  and raises \<open>OverflowError\<close> on an infinity.
\<close>

definition py_round :: "rat option \<Rightarrow> py_error + int" where
  "py_round x = (case x of None \<Rightarrow> Inl OverflowError | Some v \<Rightarrow> Inr (round_half_even v))"

text \<open>
  \<open>round(x, 1)\<close> on a float rounds the exact value of \<open>x\<close> to one decimal place, the
  even digit of two equally near, and returns the float nearest to that decimal.
\<close>

definition py_round_ndigits1 :: "rat \<Rightarrow> rat" where
  "py_round_ndigits1 x = round_binary64 (of_int (round_half_even (x * 10)) / 10)"

text \<open>
  \<open>repr\<close> of a float, which an f-string uses: the decimal with the fewest significant
  digits that rounds back to the float (the nearest to it among those of that length),
  printed in positional notation with at least one digit after the point when its
  decimal exponent is between \<open>- 4\<close> and 15, and in exponent notation otherwise.
  \<open>shortest_candidate x p\<close> looks among the decimals of \<open>p\<close> significant digits: only
  the two that enclose \<open>x\<close> can round back to it.
\<close>

definition shortest_candidate :: "rat \<Rightarrow> nat \<Rightarrow> rat option" where
  "shortest_candidate x p =
     (let u = 10 powi (magnitude 10 x - int p + 1);
          n = \<lfloor>x / u\<rfloor>;
          lo = of_int n * u;
          hi = lo + u;
          ok_lo = (round_binary64 lo = x);
          ok_hi = (round_binary64 hi = x)
      in if ok_lo \<and> ok_hi then
           (if x - lo < hi - x then Some lo
            else if hi - x < x - lo then Some hi
            else if even n then Some lo else Some hi)
         else if ok_lo then Some lo
         else if ok_hi then Some hi
         else None)"

fun shortest_decimal :: "rat \<Rightarrow> nat \<Rightarrow> nat \<Rightarrow> rat" where
  "shortest_decimal x p 0 = x"
| "shortest_decimal x p (Suc fuel) =
     (case shortest_candidate x p of
        Some c \<Rightarrow> c
      | None \<Rightarrow> shortest_decimal x (Suc p) fuel)"

fun fraction_digits :: "rat \<Rightarrow> nat \<Rightarrow> string" where
  "fraction_digits f 0 = []"
| "fraction_digits f (Suc fuel) =
     (if f = 0 then []
      else let d = \<lfloor>f * 10\<rfloor>
           in digit_char (nat d) # fraction_digits (f * 10 - of_int d) fuel)"

definition repr_positive :: "rat \<Rightarrow> string" where
  "repr_positive x =
     (let c = shortest_decimal x 1 17; e = magnitude 10 c
      in if - 4 \<le> e \<and> e \<le> 15 then
           str_int \<lfloor>c\<rfloor> @ ''.'' @
             (if c = of_int \<lfloor>c\<rfloor> then ''0'' else fraction_digits (c - of_int \<lfloor>c\<rfloor>) 32)
         else
           (let m = c / 10 powi e
            in str_int \<lfloor>m\<rfloor> @
               (if m = of_int \<lfloor>m\<rfloor> then [] else ''.'' @ fraction_digits (m - of_int \<lfloor>m\<rfloor>) 32) @
               ''e'' @ (if e < 0 then ''-'' else ''+'') @
               (if \<bar>e\<bar> < 10 then ''0'' else []) @ str_int \<bar>e\<bar>))"

definition float_repr :: "rat \<Rightarrow> string" where
  "float_repr x =
     (if x = 0 then ''0.0'' else if x < 0 then ''-'' @ repr_positive (- x) else repr_positive x)"

section \<open>Formatting a number for display\<close>

text \<open>
  \<open>format_number\<close>, applied to a Python integer, the argument of the
  specification's contract. The three \<open>return\<close> statements are the three results;
  the only exception the body can raise is the \<open>OverflowError\<close> of the division.
\<close>

definition format_number :: "int \<Rightarrow> py_error + string" where
  "format_number num =
     (if num > 1000000 then
        (if num mod 1000000 = 0 then Inr (str_int (num div 1000000) @ '' M'')
         else case py_truediv num 1000000 of
                Inl e \<Rightarrow> Inl e
              | Inr q \<Rightarrow> Inr (float_repr (py_round_ndigits1 q) @ '' M''))
      else Inr (str_int (num div 1000) @ '' K''))"

section \<open>Migration percentages\<close>

text \<open>\<open>series.nunique()\<close>: the number of distinct values.\<close>

definition nunique :: "'a list \<Rightarrow> nat" where
  "nunique xs = length (remdups xs)"

text \<open>\<open>round((k / d) * 100)\<close> for a count \<open>k\<close> of rows and a count \<open>d\<close> of states.\<close>

definition migration_percentage :: "nat \<Rightarrow> nat \<Rightarrow> py_error + int" where
  "migration_percentage k d =
     (case py_truediv (int k) (int d) of
        Inl e \<Rightarrow> Inl e
      | Inr q \<Rightarrow> py_round (float_mul q 100))"

text \<open>
  The States Migration section, under \<open>selected_year > 2010\<close>: the rows with a
  difference above 50000, the rows with a difference below \<open>- 50000\<close>, and the pair
  \<open>(states_migration_greater, states_migration_less)\<close>.
\<close>

definition df_greater_50000 :: "diff_row list \<Rightarrow> diff_row list" where
  "df_greater_50000 df_population_difference_sorted =
     filter (\<lambda>r. population_difference r > 50000) df_population_difference_sorted"

definition df_less_50000 :: "diff_row list \<Rightarrow> diff_row list" where
  "df_less_50000 df_population_difference_sorted =
     filter (\<lambda>r. population_difference r < - 50000) df_population_difference_sorted"

definition migration_percentages :: "diff_row list \<Rightarrow> py_error + (int \<times> int)" where
  "migration_percentages df_population_difference_sorted =
     (case migration_percentage (length (df_greater_50000 df_population_difference_sorted))
             (nunique (map states df_population_difference_sorted)) of
        Inl e \<Rightarrow> Inl e
      | Inr states_migration_greater \<Rightarrow>
          (case migration_percentage (length (df_less_50000 df_population_difference_sorted))
                  (nunique (map states df_population_difference_sorted)) of
             Inl e \<Rightarrow> Inl e
           | Inr states_migration_less \<Rightarrow>
               Inr (states_migration_greater, states_migration_less)))"

text \<open>The whole section: for the first year both percentages are set to 0.\<close>

definition states_migration :: "int \<Rightarrow> diff_row list \<Rightarrow> py_error + (int \<times> int)" where
  "states_migration selected_year df_population_difference_sorted =
     (if selected_year > 2010 then migration_percentages df_population_difference_sorted
      else Inr (0, 0))"

section \<open>The specification's wording, for comparison\<close>

text \<open>
  The definitions of this section follow the words of the specification, not the code;
  the theorems compare them with the code.

  The prior-year population of a state, keyed on the state's name: the population of
  the prior-year row of that state, and 0 when the prior-year slice has no such row.
\<close>

definition keyed_prior_population :: "data_frame \<Rightarrow> int \<Rightarrow> string \<Rightarrow> int" where
  "keyed_prior_population input_df input_year s =
     (case find (\<lambda>p. states p = s) (filter (\<lambda>r. year r = input_year - 1) input_df) of
        None \<Rightarrow> 0
      | Some p \<Rightarrow> population p)"

text \<open>
  A year slice with one record per state: every state of the table has exactly one row
  in the slice.
\<close>

definition one_record_per_state :: "data_frame \<Rightarrow> int \<Rightarrow> bool" where
  "one_record_per_state df y =
     (distinct (map states (df_selected_year df y))
      \<and> set (map states (df_selected_year df y)) = set (map states df))"






section \<open>Example frames\<close>

definition mk_row :: "string \<Rightarrow> string \<Rightarrow> int \<Rightarrow> int \<Rightarrow> int \<Rightarrow> pop_row" where
  "mk_row s c i y p = \<lparr>states = s, id_col = i, population = p, states_code = c, year = y\<rparr>"

text \<open>The end-to-end table of the spec: two states, both present in 2010 and 2011.\<close>

definition frame_two_states :: data_frame where
  "frame_two_states =
     [mk_row ''A'' ''AA'' 1 2010 100, mk_row ''B'' ''BB'' 2 2010 300,
      mk_row ''A'' ''AA'' 1 2011 200, mk_row ''B'' ''BB'' 2 2011 250]"

text \<open>State A has no row for 2010; state B has one.\<close>

definition frame_missing_prior :: data_frame where
  "frame_missing_prior =
     [mk_row ''B'' ''BB'' 2 2010 100,
      mk_row ''A'' ''AA'' 1 2011 350, mk_row ''B'' ''BB'' 2 2011 150]"

text \<open>State B has a row for 2010 and none for 2011.\<close>

definition frame_state_dropped :: data_frame where
  "frame_state_dropped =
     [mk_row ''A'' ''AA'' 1 2010 100, mk_row ''B'' ''BB'' 2 2010 200,
      mk_row ''A'' ''AA'' 1 2011 150]"


text \<open>Difference frames: one gain and one loss above the threshold.\<close>

definition mk_diff :: "string \<Rightarrow> int \<Rightarrow> int \<Rightarrow> int \<Rightarrow> diff_row" where
  "mk_diff s i p d = \<lparr>states = s, id_col = i, population = p, population_difference = d\<rparr>"



section \<open>Properties of the sort\<close>

lemma mset_argsort_desc: "mset (argsort_desc tie ks) = mset [0..<length ks]"
  by (simp add: argsort_desc_def)

lemma set_argsort_desc: "set (argsort_desc tie ks) = {0..<length ks}"
  by (simp add: argsort_desc_def)

lemma mset_sort_values_desc: "mset (sort_values_desc tie by df) = mset df"
proof -
  have "mset (sort_values_desc tie by df) =
      image_mset (\<lambda>i. df ! i) (mset (argsort_desc tie (map by df)))"
    by (simp add: sort_values_desc_def)
  also have "\<dots> = image_mset (\<lambda>i. df ! i) (mset [0..<length df])"
    by (simp add: mset_argsort_desc)
  also have "\<dots> = mset (map (\<lambda>i. df ! i) [0..<length df])"
    by simp
  also have "\<dots> = mset df"
    by (simp add: map_nth)
  finally show ?thesis .
qed

lemma sorted_argsort_desc:
  "sorted_wrt (\<lambda>i j. ks ! i \<ge> ks ! j) (argsort_desc tie ks)"
proof -
  let ?key = "\<lambda>i. (- (ks ! i), tie i)"
  have "sorted (map ?key (argsort_desc tie ks))"
    unfolding argsort_desc_def by (rule sorted_sort_key)
  then have "sorted_wrt (\<lambda>i j. ?key i \<le> ?key j) (argsort_desc tie ks)"
    by (simp add: sorted_map)
  then show ?thesis
    by (rule sorted_wrt_mono_rel[rotated]) (auto simp: less_eq_prod_def)
qed

lemma sorted_sort_values_desc:
  "sorted_wrt (\<lambda>a b. by a \<ge> by b) (sort_values_desc tie by df)"
proof -
  have "sorted_wrt (\<lambda>i j. by (df ! i) \<ge> by (df ! j)) (argsort_desc tie (map by df))"
    using sorted_argsort_desc[of "map by df" tie]
    by (rule sorted_wrt_mono_rel[rotated]) (simp add: set_argsort_desc)
  then show ?thesis
    by (simp add: sort_values_desc_def sorted_wrt_map)
qed



section \<open>Properties of the difference column\<close>

lemma length_sub_fill_value: "length (sub_fill_value xs ys) = max (length xs) (length ys)"
  by (induction xs ys rule: sub_fill_value.induct) simp_all


section \<open>Rounding to an integer\<close>

lemma round_half_even_unique:
  assumes "\<bar>x - of_int n\<bar> < 1 / 2"
  shows "round_half_even x = n"
proof -
  have f: "of_int \<lfloor>x\<rfloor> \<le> x" "x < of_int \<lfloor>x\<rfloor> + 1" by linarith+
  from assms have a: "x - of_int n < 1/2" "of_int n - x < 1/2" by linarith+
  have "\<lfloor>x\<rfloor> = n \<or> \<lfloor>x\<rfloor> = n - 1"
  proof -
    have "of_int \<lfloor>x\<rfloor> < (of_int n :: rat) + 1/2" using f a by linarith
    then have "of_int \<lfloor>x\<rfloor> < (of_int (n + 1) :: rat)" by simp
    then have 1: "\<lfloor>x\<rfloor> < n + 1" by (simp only: of_int_less_iff)
    have "(of_int n :: rat) - 1/2 - 1 < of_int \<lfloor>x\<rfloor>" using f a by linarith
    then have "(of_int (n - 2) :: rat) < of_int \<lfloor>x\<rfloor>" by simp
    then have 2: "n - 2 < \<lfloor>x\<rfloor>" by (simp only: of_int_less_iff)
    from 1 2 show ?thesis by linarith
  qed
  then show ?thesis
  proof
    assume e: "\<lfloor>x\<rfloor> = n"
    then have "x - of_int \<lfloor>x\<rfloor> < 1/2" using a by simp
    then show ?thesis using e by (simp add: round_half_even_def Let_def)
  next
    assume e: "\<lfloor>x\<rfloor> = n - 1"
    then have "1/2 < x - of_int \<lfloor>x\<rfloor>" using a by simp
    then show ?thesis using e by (simp add: round_half_even_def Let_def)
  qed
qed


lemma round_half_even_of_int [simp]: "round_half_even (of_int n) = n"
  by (rule round_half_even_unique) simp




section \<open>Rounding to a binary64 number\<close>



lemma quantum_pos [simp]: "0 < quantum x"
  by (simp add: quantum_def)

lemma quantum_nonzero [simp]: "quantum x \<noteq> 0"
  using quantum_pos[of x] by linarith


lemma round_binary64_0 [simp]: "round_binary64 0 = 0"
  by (simp add: round_binary64_def)












lemma round_half_even_numeral [simp]: "round_half_even (numeral n) = numeral n"
  using round_half_even_of_int[of "numeral n"] by simp

lemma round_half_even_0 [simp]: "round_half_even 0 = 0"
  using round_half_even_of_int[of 0] by simp










section \<open>The shortest decimal of a float\<close>













lemma fraction_digits_0 [simp]: "fraction_digits 0 n = []"
  by (cases n) simp_all







section \<open>Rounding millions to tenths\<close>

















section \<open>The claims\<close>

subsection \<open>C1: the pairing of current and prior rows\<close>

text \<open>
  C1 says that every record of \<open>calculate_population_difference\<close> carries the state's
  population minus the same state's prior-year population, 0 standing in for a state with
  no prior-year row. The code pairs the two slices by position after
  \<open>reset_index()\<close>, not by state. On \<open>frame_missing_prior\<close> (A has no 2010 row, B has
  one) the code subtracts B's 2010 population from A and nothing from B: it returns the
  differences 250 for A and 150 for B, where the state-keyed reading gives 350 and 50.
\<close>

theorem calculate_population_difference_pairs_by_position:
  "map (\<lambda>r. (states r, population_difference r))
       (calculate_population_difference id frame_missing_prior 2011)
     = [(''A'', 250), (''B'', 150)]
   \<and> map (\<lambda>r. (states r, population r - keyed_prior_population frame_missing_prior 2011 (states r)))
       (calculate_population_difference id frame_missing_prior 2011)
     = [(''A'', 350), (''B'', 50)]"
  by code_simp

subsection \<open>C2: one million exactly\<close>

text \<open>
  C2 as amended: \<open>format_number\<close> applied to exactly 1000000 returns \<open>1000 K\<close>. The
  test \<open>num > 1000000\<close> is strict, so one million takes the thousands branch.
\<close>

theorem format_number_one_million: "format_number 1000000 = Inr ''1000 K''"
  by (simp add: format_number_def str_int_def str_nat.simps digit_char_def)

text \<open>C2 as stated fails: the result is not \<open>1 M\<close>.\<close>

theorem format_number_one_million_not_1_M: "format_number 1000000 \<noteq> Inr ''1 M''"
  by (simp add: format_number_def str_int_def str_nat.simps digit_char_def)

subsection \<open>C3: the piecewise contract of \<open>format_number\<close>\<close>




subsection \<open>C4: ranking the selected year by population\<close>



subsection \<open>C5: conservation of the differences\<close>





text \<open>
  The condition is needed. In \<open>frame_state_dropped\<close> state B has a row for 2010 and none
  for 2011: the differences for 2011 add up to 50 while the totals differ by
  \<open>150 - 300\<close>, because the 2010 row of B is dropped when the column is aligned to the
  2011 slice.
\<close>

lemma conservation_needs_every_state:
  "\<not> one_record_per_state frame_state_dropped 2011
   \<and> sum_list (map population_difference
        (calculate_population_difference id frame_state_dropped 2011)) = 50
   \<and> sum_list (map population (df_selected_year frame_state_dropped 2011))
       - sum_list (map population (df_selected_year frame_state_dropped (2011 - 1))) = - 150"
  by code_simp

subsection \<open>C6: the order of the returned differences\<close>

text \<open>
  C6: for every table and year, the records returned by
  \<open>calculate_population_difference\<close> are in descending order of
  \<open>population_difference\<close>: every record's difference is at least that of every record
  after it.
\<close>

theorem calculate_population_difference_descending:
  "sorted_wrt (\<lambda>a b. population_difference a \<ge> population_difference b)
     (calculate_population_difference tie input_df input_year)"
  by (simp add: calculate_population_difference_def Let_def sorted_sort_values_desc)

subsection \<open>C7: the migration percentages\<close>




subsection \<open>C8: no states at all\<close>

text \<open>
  C8: when the frame of differences has no distinct state, the percentage computation
  raises \<open>ZeroDivisionError\<close> and returns no percentages. (In the script the
  lines before it read the first row of the frame, which fails earlier on an empty
  frame; the theorem is about the percentage computation itself.)
\<close>

theorem migration_percentages_zero_states:
  assumes "nunique (map states df) = 0"
  shows "migration_percentages df = Inl ZeroDivisionError"
  using assms
  by (simp add: migration_percentages_def migration_percentage_def py_truediv_def)

theorem migration_percentages_zero_states_witness:
  "nunique (map states ([] :: diff_row list)) = 0
   \<and> migration_percentages [] = Inl ZeroDivisionError"
proof -
  have h: "nunique (map states ([] :: diff_row list)) = 0" by (simp add: nunique_def)
  show ?thesis using h migration_percentages_zero_states[OF h] by simp
qed

subsection \<open>C9: a year that is not in the table\<close>



subsection \<open>C10: the rounding rule\<close>



section \<open>Further properties\<close>

subsection \<open>Differences for slices in the same order\<close>

lemma sub_fill_value_same_length:
  "length xs = length ys \<Longrightarrow> sub_fill_value xs ys = map2 (-) xs ys"
  by (induction xs ys rule: list_induct2) simp_all

lemma find_distinct_key:
  "distinct (map f xs) \<Longrightarrow> i < length xs \<Longrightarrow> find (\<lambda>p. f p = f (xs ! i)) xs = Some (xs ! i)"
proof (induction xs arbitrary: i)
  case Nil
  then show ?case by simp
next
  case (Cons a xs)
  show ?case
  proof (cases i)
    case 0
    then show ?thesis by simp
  next
    case (Suc j)
    with Cons.prems have j: "j < length xs" by simp
    then have "f (xs ! j) \<in> f ` set xs" by simp
    with Cons.prems(1) have "f a \<noteq> f (xs ! j)" by auto
    with Cons.IH[of j] Cons.prems(1) j Suc show ?thesis by simp
  qed
qed

text \<open>
  When the prior-year slice lists the same states in the same order as the slice of the
  selected year, each state once, the positional pairing is the pairing by state: every
  returned record carries its population minus the prior-year population of its own
  state.
\<close>

theorem population_difference_keyed_when_aligned:
  assumes "map states (df_selected_year input_df (input_year - 1))
             = map states (df_selected_year input_df input_year)"
    and "distinct (map states (df_selected_year input_df input_year))"
    and "r \<in> set (calculate_population_difference tie input_df input_year)"
  shows "population_difference r
           = population r - keyed_prior_population input_df input_year (states r)"
proof -
  define sel where "sel = filter (\<lambda>r. year r = input_year) input_df"
  define prev where "prev = filter (\<lambda>r. year r = input_year - 1) input_df"
  have st: "map states prev = map states sel" and di: "distinct (map states sel)"
    using assms(1,2) by (simp_all add: sel_def prev_def df_selected_year_def)
  have len: "length prev = length sel" using st by (metis length_map)
  have dp: "distinct (map states prev)" using st di by simp
  have "set (calculate_population_difference tie input_df input_year)
      = set (map2 with_difference sel
               (sub_fill_value (map population sel) (map population prev)))"
    unfolding calculate_population_difference_def Let_def sel_def prev_def
    by (rule mset_eq_setD) (rule mset_sort_values_desc)
  also have "sub_fill_value (map population sel) (map population prev)
      = map2 (-) (map population sel) (map population prev)"
    using len by (intro sub_fill_value_same_length) simp
  finally have "r \<in> set (map2 with_difference sel
      (map2 (-) (map population sel) (map population prev)))"
    using assms(3) by simp
  then obtain i where i: "i < length sel"
    and r: "r = with_difference (sel ! i) (population (sel ! i) - population (prev ! i))"
    using len by (auto simp: in_set_conv_nth)
  have "states (prev ! i) = states (sel ! i)"
    using st i len by (metis nth_map)
  then have "find (\<lambda>p. states p = states (sel ! i)) prev = Some (prev ! i)"
    using find_distinct_key[of states prev i] dp i len by simp
  then have "keyed_prior_population input_df input_year (states (sel ! i)) = population (prev ! i)"
    by (simp add: keyed_prior_population_def prev_def)
  then show ?thesis by (simp add: r with_difference_def)
qed

theorem population_difference_keyed_when_aligned_witness:
  "map states (df_selected_year frame_two_states (2011 - 1))
     = map states (df_selected_year frame_two_states 2011)
   \<and> distinct (map states (df_selected_year frame_two_states 2011))
   \<and> mk_diff ''B'' 2 250 (- 50) \<in> set (calculate_population_difference id frame_two_states 2011)
   \<and> population_difference (mk_diff ''B'' 2 250 (- 50))
       = population (mk_diff ''B'' 2 250 (- 50))
         - keyed_prior_population frame_two_states 2011 (states (mk_diff ''B'' 2 250 (- 50)))"
proof -
  have h1: "map states (df_selected_year frame_two_states (2011 - 1))
     = map states (df_selected_year frame_two_states 2011)" by code_simp
  have h2: "distinct (map states (df_selected_year frame_two_states 2011))" by code_simp
  have h3: "mk_diff ''B'' 2 250 (- 50) \<in> set (calculate_population_difference id frame_two_states 2011)"
    by code_simp
  show ?thesis
    using h1 h2 h3 population_difference_keyed_when_aligned[OF h1 h2 h3] by simp
qed

subsection \<open>A stable sorting kernel\<close>

lemma filter_nth_upt: "map (\<lambda>i. df ! i) (filter (\<lambda>i. P (df ! i)) [0..<length df]) = filter P df"
proof -
  have "map (\<lambda>i. df ! i) (filter (\<lambda>i. P (df ! i)) [0..<length df])
      = filter P (map (\<lambda>i. df ! i) [0..<length df])"
    by (simp add: filter_map comp_def)
  then show ?thesis by (simp add: map_nth)
qed

text \<open>
  With a kernel that ranks all positions alike, the sort is stable: the rows with any
  one key come out in their input order.
\<close>

theorem sort_values_desc_stable_kernel:
  "filter (\<lambda>r. by r = k) (sort_values_desc (\<lambda>i. c) by df) = filter (\<lambda>r. by r = k) df"
proof -
  let ?key = "\<lambda>i. (- (map by df ! i), c)"
  let ?idx = "[0..<length df]"
  have in_range: "\<forall>i \<in> set (sort_key ?key ?idx). i < length df" by simp
  have "filter (\<lambda>r. by r = k) (sort_values_desc (\<lambda>i. c) by df)
      = map (\<lambda>i. df ! i) (filter (\<lambda>i. by (df ! i) = k) (sort_key ?key ?idx))"
    by (simp add: sort_values_desc_def argsort_desc_def filter_map comp_def)
  also have "filter (\<lambda>i. by (df ! i) = k) (sort_key ?key ?idx)
      = filter (\<lambda>i. ?key i = (- k, c)) (sort_key ?key ?idx)"
    using in_range by (intro filter_cong) auto
  also have "\<dots> = filter (\<lambda>i. ?key i = (- k, c)) ?idx"
    by (rule sort_key_stable)
  also have "\<dots> = filter (\<lambda>i. by (df ! i) = k) ?idx"
    by (intro filter_cong) auto
  also have "map (\<lambda>i. df ! i) \<dots> = filter (\<lambda>r. by r = k) df"
    by (rule filter_nth_upt)
  finally show ?thesis .
qed

subsection \<open>The two-state table\<close>

text \<open>
  On the two-state table of the specification, the differences for 2011 are \<open>+100\<close>
  for A and \<open>-50\<close> for B, in this order, whatever the kernel.
\<close>

theorem calculate_population_difference_two_states:
  "map (\<lambda>r. (states r, population_difference r))
     (calculate_population_difference tie frame_two_states 2011) = [(''A'', 100), (''B'', - 50)]"
  by (simp add: calculate_population_difference_def frame_two_states_def mk_row_def
      sort_values_desc_def argsort_desc_def with_difference_def upt_rec[of 0] upt_rec[of 1] upt_rec[of 2]
      less_eq_prod_def less_prod_def)

end
